theory Spec2Isabelle
  imports Main
begin

section \<open>CoubDownloader GUI front end: option resolution of \<^verbatim>\<open>coub-gui.py\<close>\<close>

text \<open>
  The development embeds the option-resolution code of \<^verbatim>\<open>coub-gui.py\<close>: the label
  tables of \<^verbatim>\<open>GuiDefaultOptions\<close> and \<^verbatim>\<open>translate_to_cli\<close>, the correction of the
  defaults in \<^verbatim>\<open>GuiDefaultOptions.__init__\<close>, and \<^verbatim>\<open>parse_cli\<close>: the defaults it looks up
  for the form, the check of the error flag, and everything it does with the namespace
  that \<^verbatim>\<open>parser.parse_args()\<close> returns.

  A Python \<^verbatim>\<open>str\<close> is a \<^typ>\<open>string\<close> whose characters are the code points below 256;
  \<^verbatim>\<open>None\<close> is \<^const>\<open>None\<close>; an exception is the left injection of a sum.
  Paths follow \<^verbatim>\<open>posixpath\<close>.
\<close>

subsection \<open>Exceptions and exit statuses\<close>

text \<open>
  Modelled from the spec: the exit statuses of \<^verbatim>\<open>coub.ExitCodes\<close>, a class of
  \<^verbatim>\<open>coub.py\<close>, which is not among the sources. The spec gives one dedicated status for an
  option error and keeps it apart from the statuses the engine exits with at run time.
\<close>

datatype exit_status = OPT | ENGINE nat

datatype exn = KeyError | IndexError | IsADirectoryError | SystemExit exit_status

subsection \<open>Python containers\<close>

text \<open>\<^verbatim>\<open>xs[i]\<close> on a list: a negative index counts from the end, an index out of range raises.\<close>

definition list_getitem :: "'a list \<Rightarrow> int \<Rightarrow> exn + 'a" where
  "list_getitem xs i =
     (if 0 \<le> i \<and> i < int (length xs) then Inr (xs ! nat i)
      else if - int (length xs) \<le> i \<and> i < 0 then Inr (xs ! nat (int (length xs) + i))
      else Inl IndexError)"

text \<open>\<^verbatim>\<open>d[k]\<close> on a dict literal, kept as the association list of its items.\<close>

definition dict_getitem :: "('k \<times> 'v) list \<Rightarrow> 'k \<Rightarrow> exn + 'v" where
  "dict_getitem d k = (case map_of d k of None \<Rightarrow> Inl KeyError | Some v \<Rightarrow> Inr v)"

subsection \<open>Python strings\<close>

text \<open>\<^verbatim>\<open>s.split(sep)\<close> for a separator of one character: never an empty list.\<close>

fun str_split :: "char \<Rightarrow> string \<Rightarrow> string list" where
  "str_split sep [] = [[]]"
| "str_split sep (c # cs) =
     (if c = sep then [] # str_split sep cs
      else (case str_split sep cs of
              [] \<Rightarrow> [[c]]
            | t # ts \<Rightarrow> (c # t) # ts))"

text \<open>\<^verbatim>\<open>sep.join(ts)\<close>, the inverse direction of \<^const>\<open>str_split\<close>.\<close>

fun str_join :: "char \<Rightarrow> string list \<Rightarrow> string" where
  "str_join sep [] = []"
| "str_join sep [t] = t"
| "str_join sep (t # u # ts) = t @ sep # str_join sep (u # ts)"

text \<open>\<^verbatim>\<open>c.isspace()\<close> on the code points below 256.\<close>

definition isspace :: "char \<Rightarrow> bool" where
  "isspace c =
     (let n = (of_char c :: nat)
      in (9 \<le> n \<and> n \<le> 13) \<or> (28 \<le> n \<and> n \<le> 32) \<or> n = 133 \<or> n = 160)"

text \<open>\<^verbatim>\<open>s.strip()\<close>.\<close>

definition strip :: "string \<Rightarrow> string" where
  "strip s = rev (dropWhile isspace (rev (dropWhile isspace s)))"

subsection \<open>Paths and files\<close>

text \<open>\<^verbatim>\<open>os.path.isabs\<close> and \<^verbatim>\<open>os.path.join\<close> of two components, as in \<^verbatim>\<open>posixpath\<close>.\<close>

definition os_path_isabs :: "string \<Rightarrow> bool" where
  "os_path_isabs p = (case p of [] \<Rightarrow> False | c # _ \<Rightarrow> c = CHR ''/'')"

definition os_path_join :: "string \<Rightarrow> string \<Rightarrow> string" where
  "os_path_join a b =
     (if os_path_isabs b then b
      else if a = [] \<or> last a = CHR ''/'' then a @ b
      else a @ CHR ''/'' # b)"

text \<open>
  The file system as far as \<^verbatim>\<open>parse_cli\<close> touches it: a path names nothing, a directory,
  or a regular file with its decoded text.
\<close>

datatype fs_node = RegularFile string | Directory

type_synonym filesystem = "string \<Rightarrow> fs_node option"

definition os_path_exists :: "filesystem \<Rightarrow> string \<Rightarrow> bool" where
  "os_path_exists fs p = (case fs p of None \<Rightarrow> False | Some _ \<Rightarrow> True)"

text \<open>
  Reading in text mode translates \<^verbatim>\<open>\r\n\<close> and \<^verbatim>\<open>\r\<close> to \<^verbatim>\<open>\n\<close>; iterating over the
  file yields the lines with their terminator.
\<close>

fun universal_newlines :: "string \<Rightarrow> string" where
  "universal_newlines [] = []"
| "universal_newlines (c # cs) =
     (if c = CHR 0x0D then
        (case cs of
           [] \<Rightarrow> [CHR 0x0A]
         | d # ds \<Rightarrow> if d = CHR 0x0A then CHR 0x0A # universal_newlines ds
                     else CHR 0x0A # universal_newlines cs)
      else c # universal_newlines cs)"

fun file_lines :: "string \<Rightarrow> string list" where
  "file_lines [] = []"
| "file_lines (c # cs) =
     (if c = CHR 0x0A then [c] # file_lines cs
      else (case file_lines cs of
              [] \<Rightarrow> [[c]]
            | l # ls \<Rightarrow> (c # l) # ls))"

subsection \<open>The label tables\<close>

text \<open>The class attributes of \<^verbatim>\<open>GuiDefaultOptions\<close>: from a code to its label.\<close>

definition QUALITY_LABEL :: "string list" where
  "QUALITY_LABEL = [''Worst quality'', ''Best quality'']"

definition AAC_LABEL :: "string list" where
  "AAC_LABEL = [''Only MP3'', ''No Bias'', ''Prefer AAC'', ''Only AAC'']"

definition RECOUB_LABEL :: "string list" where
  "RECOUB_LABEL = [''No Recoubs'', ''With Recoubs'', ''Only Recoubs'']"

definition SPECIAL_LABEL :: "((bool \<times> bool \<times> bool) \<times> string) list" where
  "SPECIAL_LABEL =
     [((False, False, False), ''None''),
      ((True, False, False), ''Share''),
      ((False, True, False), ''Video only''),
      ((False, False, True), ''Audio only'')]"

text \<open>The local tables of \<^verbatim>\<open>translate_to_cli\<close>: from a label to its code.\<close>

definition cli_QUALITY_LABEL :: "(string \<times> int) list" where
  "cli_QUALITY_LABEL = [(''Worst quality'', 0), (''Best quality'', -1)]"

definition cli_AAC_LABEL :: "(string \<times> int) list" where
  "cli_AAC_LABEL = [(''Only MP3'', 0), (''No Bias'', 1), (''Prefer AAC'', 2), (''Only AAC'', 3)]"

definition cli_RECOUB_LABEL :: "(string \<times> int) list" where
  "cli_RECOUB_LABEL = [(''No Recoubs'', 0), (''With Recoubs'', 1), (''Only Recoubs'', 2)]"

definition cli_SPECIAL_LABEL :: "(string \<times> (bool \<times> bool \<times> bool)) list" where
  "cli_SPECIAL_LABEL =
     [(''None'', (False, False, False)),
      (''Share'', (True, False, False)),
      (''Video only'', (False, True, False)),
      (''Audio only'', (False, False, True))]"

text \<open>The \<^verbatim>\<open>choices\<close> that \<^verbatim>\<open>parse_cli\<close> declares for the four dropdown menus.\<close>

definition quality_choices :: "string list" where
  "quality_choices = [''Best quality'', ''Worst quality'']"

definition aac_choices :: "string list" where
  "aac_choices = [''Only MP3'', ''No Bias'', ''Prefer AAC'', ''Only AAC'']"

definition recoubs_choices :: "string list" where
  "recoubs_choices = [''No Recoubs'', ''With Recoubs'', ''Only Recoubs'']"

definition special_choices :: "string list" where
  "special_choices = [''None'', ''Share'', ''Video only'', ''Audio only'']"

subsection \<open>The defaults\<close>

text \<open>
  The attributes of a \<^verbatim>\<open>coub.DefaultOptions\<close> object that \<^verbatim>\<open>coub-gui.py\<close> reads.
  \<^verbatim>\<open>coub.DefaultOptions.__init__\<close> is not among the sources: the object it leaves
  behind is an argument of \<open>GuiDefaultOptions_init\<close>, and so is the home directory that
  \<^verbatim>\<open>os.path.expanduser("~")\<close> returns.
\<close>

record defaults =
  PROMPT :: "string option"
  PATH :: string
  RECOUBS :: int
  V_QUALITY :: int
  A_QUALITY :: int
  AAC :: int
  SHARE :: bool
  V_ONLY :: bool
  A_ONLY :: bool
  error :: bool

definition GuiDefaultOptions_init :: "string \<Rightarrow> defaults \<Rightarrow> defaults" where
  "GuiDefaultOptions_init home self =
     (let self1 = (if PROMPT self \<notin> {Some ''yes'', Some ''no''}
                   then self\<lparr>PROMPT := Some ''no''\<rparr> else self);
          self2 = (if \<not> os_path_isabs (PATH self1)
                   then self1\<lparr>PATH := os_path_join home ''coubs''\<rparr> else self1)
      in self2)"

subsection \<open>The options namespace\<close>

text \<open>
  A dropdown option holds its display label when \<^verbatim>\<open>parse_args\<close> returns and the internal
  code once \<^verbatim>\<open>translate_to_cli\<close> has overwritten the attribute.
\<close>

datatype choice = Label string | Code int

text \<open>
  The attributes of the namespace that \<^verbatim>\<open>parser.parse_args()\<close> returns, as far as
  \<^verbatim>\<open>parse_cli\<close> reads or rewrites them afterwards; the other options (prompt, repeat,
  duration, ...) pass through untouched in \<open>rest\<close>. The attributes \<^verbatim>\<open>lists\<close> and
  \<^verbatim>\<open>random\<close> are \<open>link_lists\<close> and \<open>random_count\<close> here.
\<close>

record 'r gui_args =
  urls :: string
  ids :: string
  channels :: string
  recoubs :: choice
  tags :: string
  searches :: string
  communities :: string
  stories :: string
  link_lists :: string
  random_count :: "int option"
  hot :: bool
  archive :: "string option"
  v_quality :: choice
  a_quality :: choice
  aac :: choice
  special :: string
  name_template :: "string option"
  tag_sep :: "string option"
  fallback_char :: "string option"
  rest :: 'r

text \<open>
  The elements of \<^verbatim>\<open>args.input\<close>: a plain \<^verbatim>\<open>str\<close>, or an object of one of the
  classes of \<^verbatim>\<open>coub.py\<close> built from a token.
\<close>

datatype input_source =
    Str string
  | LinkList string
  | Channel string
  | Tag string
  | Search string
  | Community string
  | Story string
  | HotSection
  | RandomCategory

text \<open>The attributes that \<^verbatim>\<open>parse_cli\<close> adds, then those that \<^verbatim>\<open>translate_to_cli\<close> adds.\<close>

record 'r parsed_args = "'r gui_args" +
  input :: "input_source list"
  archive_content :: "string set"

record 'r cli_args = "'r parsed_args" +
  share :: bool
  v_only :: bool
  a_only :: bool

subsection \<open>Building the input list\<close>

text \<open>The loop \<^verbatim>\<open>for _ in range(n): args.input.append(coub.RandomCategory())\<close>.\<close>

fun append_random :: "nat \<Rightarrow> input_source list \<Rightarrow> input_source list" where
  "append_random 0 inp = inp"
| "append_random (Suc k) inp = append_random k (inp @ [RandomCategory])"

text \<open>
  Lines 273 to 286 of \<^verbatim>\<open>coub-gui.py\<close>: the list starts empty, every statement extends
  it at the end. A string is true when it is not empty, a count when it is neither
  \<^verbatim>\<open>None\<close> nor zero; \<^verbatim>\<open>range(n)\<close> is empty for a negative \<open>n\<close>.
  \<^verbatim>\<open>coub.mapped_input\<close> is a function of \<^verbatim>\<open>coub.py\<close>, taken as the argument
  \<open>mapped_input\<close>.
\<close>

definition build_input :: "(string \<Rightarrow> input_source) \<Rightarrow> ('r, 'm) gui_args_scheme \<Rightarrow> input_source list" where
  "build_input mapped_input args =
     (let inp0 = [];
          inp1 = inp0 @ [mapped_input u. u \<leftarrow> str_split CHR '','' (urls args), u \<noteq> []];
          inp2 = inp1 @ [Str i. i \<leftarrow> str_split CHR '','' (ids args), i \<noteq> []];
          inp3 = inp2 @ [LinkList l. l \<leftarrow> str_split CHR '','' (link_lists args), l \<noteq> []];
          inp4 = inp3 @ [Channel c. c \<leftarrow> str_split CHR '','' (channels args), c \<noteq> []];
          inp5 = inp4 @ [Tag t. t \<leftarrow> str_split CHR '','' (tags args), t \<noteq> []];
          inp6 = inp5 @ [Search s. s \<leftarrow> str_split CHR '','' (searches args), s \<noteq> []];
          inp7 = inp6 @ [Community c. c \<leftarrow> str_split CHR '','' (communities args), c \<noteq> []];
          inp8 = inp7 @ [Story s. s \<leftarrow> str_split CHR '','' (stories args), s \<noteq> []];
          inp9 = (if hot args then inp8 @ [HotSection] else inp8)
      in case random_count args of
           None \<Rightarrow> inp9
         | Some n \<Rightarrow> if n \<noteq> 0 then append_random (nat n) inp9 else inp9)"

text \<open>The tokens of a field that reach the input list: those that are not empty.\<close>

definition tokens :: "string \<Rightarrow> string list" where
  "tokens field = filter (\<lambda>t. t \<noteq> []) (str_split CHR '','' field)"

text \<open>The kind of an element and the string it carries.\<close>

fun is_typed :: "input_source \<Rightarrow> bool" where
  "is_typed (Str _) = False"
| "is_typed _ = True"

fun payload :: "input_source \<Rightarrow> string option" where
  "payload (Str s) = Some s"
| "payload (LinkList s) = Some s"
| "payload (Channel s) = Some s"
| "payload (Tag s) = Some s"
| "payload (Search s) = Some s"
| "payload (Community s) = Some s"
| "payload (Story s) = Some s"
| "payload HotSection = None"
| "payload RandomCategory = None"

subsection \<open>Reading the archive\<close>

text \<open>
  Lines 289 to 293. The file is opened for reading only: the file system comes back as
  it went in.
\<close>

definition read_archive :: "filesystem \<Rightarrow> string option \<Rightarrow> (exn + string set) \<times> filesystem" where
  "read_archive fs path =
     (case path of
        None \<Rightarrow> (Inr {}, fs)
      | Some p \<Rightarrow>
          if p \<noteq> [] \<and> os_path_exists fs p then
            (case fs p of
               Some (RegularFile text) \<Rightarrow>
                 (Inr (set (map strip (file_lines (universal_newlines text)))), fs)
             | _ \<Rightarrow> (Inl IsADirectoryError, fs))
          else (Inr {}, fs))"

subsection \<open>Normalising the options\<close>

text \<open>Lines 296 and 297.\<close>

definition normalize_name_template :: "('r, 'm) gui_args_scheme \<Rightarrow> ('r, 'm) gui_args_scheme" where
  "normalize_name_template args =
     (if name_template args = Some ''%id%'' then args\<lparr>name_template := None\<rparr> else args)"

text \<open>Lines 300 and 301.\<close>

definition normalize_tag_sep :: "('r, 'm) gui_args_scheme \<Rightarrow> ('r, 'm) gui_args_scheme" where
  "normalize_tag_sep args =
     (if tag_sep args = Some ''space'' then args\<lparr>tag_sep := Some '' ''\<rparr> else args)"

text \<open>Lines 302 to 305.\<close>

definition normalize_fallback_char :: "('r, 'm) gui_args_scheme \<Rightarrow> ('r, 'm) gui_args_scheme" where
  "normalize_fallback_char args =
     (if fallback_char args = None then args\<lparr>fallback_char := Some []\<rparr>
      else if fallback_char args = Some ''space'' then args\<lparr>fallback_char := Some '' ''\<rparr>
      else args)"

text \<open>The three rewrites in the order of the source.\<close>

definition normalize :: "('r, 'm) gui_args_scheme \<Rightarrow> ('r, 'm) gui_args_scheme" where
  "normalize args = normalize_fallback_char (normalize_tag_sep (normalize_name_template args))"

subsection \<open>Translating the labels\<close>

text \<open>A key that is not a \<^verbatim>\<open>str\<close> is in none of the tables.\<close>

definition choice_getitem :: "(string \<times> int) list \<Rightarrow> choice \<Rightarrow> exn + int" where
  "choice_getitem d c = (case c of Label l \<Rightarrow> dict_getitem d l | Code _ \<Rightarrow> Inl KeyError)"

definition translate_to_cli :: "'r parsed_args \<Rightarrow> exn + 'r cli_args" where
  "translate_to_cli options =
     (case choice_getitem cli_QUALITY_LABEL (v_quality options) of
        Inl e \<Rightarrow> Inl e
      | Inr vq \<Rightarrow>
     (case choice_getitem cli_QUALITY_LABEL (a_quality options) of
        Inl e \<Rightarrow> Inl e
      | Inr aq \<Rightarrow>
     (case choice_getitem cli_AAC_LABEL (aac options) of
        Inl e \<Rightarrow> Inl e
      | Inr ac \<Rightarrow>
     (case choice_getitem cli_RECOUB_LABEL (recoubs options) of
        Inl e \<Rightarrow> Inl e
      | Inr rc \<Rightarrow>
     (case dict_getitem cli_SPECIAL_LABEL (special options) of
        Inl e \<Rightarrow> Inl e
      | Inr (sh, vo, ao) \<Rightarrow>
          Inr (parsed_args.extend
                 (options\<lparr>v_quality := Code vq, a_quality := Code aq,
                          aac := Code ac, recoubs := Code rc\<rparr>)
                 (cli_args.fields sh vo ao)))))))"

subsection \<open>\<^verbatim>\<open>parse_cli\<close> and the program\<close>

text \<open>
  The defaults of the dropdown menus, looked up in the label tables while the parser is
  built (lines 149, 203, 206, 214 and 218), with the corrected prompt and path.
\<close>

record form =
  recoubs_default :: string
  v_quality_default :: string
  a_quality_default :: string
  aac_default :: string
  special_default :: string
  prompt_default :: "string option"
  path_default :: string

definition build_parser :: "defaults \<Rightarrow> exn + form" where
  "build_parser defs =
     (case list_getitem RECOUB_LABEL (RECOUBS defs) of
        Inl e \<Rightarrow> Inl e
      | Inr rc \<Rightarrow>
     (case list_getitem QUALITY_LABEL (V_QUALITY defs) of
        Inl e \<Rightarrow> Inl e
      | Inr vq \<Rightarrow>
     (case list_getitem QUALITY_LABEL (A_QUALITY defs) of
        Inl e \<Rightarrow> Inl e
      | Inr aq \<Rightarrow>
     (case list_getitem AAC_LABEL (AAC defs) of
        Inl e \<Rightarrow> Inl e
      | Inr ac \<Rightarrow>
     (case dict_getitem SPECIAL_LABEL (SHARE defs, V_ONLY defs, A_ONLY defs) of
        Inl e \<Rightarrow> Inl e
      | Inr sp \<Rightarrow>
          Inr \<lparr>recoubs_default = rc, v_quality_default = vq, a_quality_default = aq,
               aac_default = ac, special_default = sp,
               prompt_default = PROMPT defs, path_default = PATH defs\<rparr>)))))"

text \<open>Lines 273 to 307: what \<^verbatim>\<open>parse_cli\<close> does with the parsed namespace.\<close>

definition resolve ::
  "(string \<Rightarrow> input_source) \<Rightarrow> filesystem \<Rightarrow> 'r gui_args \<Rightarrow> (exn + 'r cli_args) \<times> filesystem" where
  "resolve mapped_input fs args =
     (let inp = build_input mapped_input args
      in case read_archive fs (archive args) of
           (Inl e, fs') \<Rightarrow> (Inl e, fs')
         | (Inr content, fs') \<Rightarrow>
             (translate_to_cli
                (gui_args.extend (normalize args) (parsed_args.fields inp content)), fs'))"

text \<open>
  \<^verbatim>\<open>parse_cli\<close>: the defaults, the parser, \<^verbatim>\<open>parser.parse_args()\<close> (the Gooey form, an
  argument here: it returns a namespace or raises), the check of the error flag, and
  the resolution.
\<close>

definition parse_cli ::
  "string \<Rightarrow> defaults \<Rightarrow> (form \<Rightarrow> exn + 'r gui_args) \<Rightarrow> (string \<Rightarrow> input_source) \<Rightarrow> filesystem
     \<Rightarrow> (exn + 'r cli_args) \<times> filesystem" where
  "parse_cli home base parse_args mapped_input fs =
     (let defs = GuiDefaultOptions_init home base
      in case build_parser defs of
           Inl e \<Rightarrow> (Inl e, fs)
         | Inr parser \<Rightarrow>
             (case parse_args parser of
                Inl e \<Rightarrow> (Inl e, fs)
              | Inr args \<Rightarrow>
                  if error defs then (Inl (SystemExit OPT), fs)
                  else resolve mapped_input fs args))"

text \<open>
  The script: \<^verbatim>\<open>coub.opts = parse_cli()\<close>, then \<^verbatim>\<open>coub.main()\<close>, the engine, an argument
  here.
\<close>

definition script ::
  "string \<Rightarrow> defaults \<Rightarrow> (form \<Rightarrow> exn + 'r gui_args) \<Rightarrow> (string \<Rightarrow> input_source) \<Rightarrow> filesystem
     \<Rightarrow> ('r cli_args \<Rightarrow> filesystem \<Rightarrow> (exn + 'a) \<times> filesystem) \<Rightarrow> (exn + 'a) \<times> filesystem" where
  "script home base parse_args mapped_input fs coub_main =
     (case parse_cli home base parse_args mapped_input fs of
        (Inl e, fs') \<Rightarrow> (Inl e, fs')
      | (Inr opts, fs') \<Rightarrow> coub_main opts fs')"

text \<open>
  A namespace as the form returns it when every text field is left at its declared
  default, the empty string, no box is ticked and no archive is chosen; the dropdown
  menus and the remaining options hold sample values.
\<close>

definition blank_args :: "unit gui_args" where
  "blank_args =
     \<lparr>urls = [], ids = [], channels = [], recoubs = Label ''No Recoubs'', tags = [],
      searches = [], communities = [], stories = [], link_lists = [],
      random_count = None, hot = False, archive = None,
      v_quality = Label ''Best quality'', a_quality = Label ''Best quality'',
      aac = Label ''No Bias'', special = ''None'', name_template = Some ''%id%'',
      tag_sep = Some ''_'', fallback_char = None, rest = ()\<rparr>"

text \<open>
  A defaults object as \<^verbatim>\<open>coub.DefaultOptions.__init__\<close> may leave it: no prompt answer,
  the current directory as output path, sample values elsewhere, no error recorded.
\<close>

definition sample_defaults :: defaults where
  "sample_defaults =
     \<lparr>PROMPT = None, PATH = ''./out'', RECOUBS = 1, V_QUALITY = - 1, A_QUALITY = - 1,
      AAC = 1, SHARE = False, V_ONLY = False, A_ONLY = False, error = False\<rparr>"

text \<open>
  A \<^verbatim>\<open>parser.parse_args()\<close> that returns the namespace of the untouched form, whatever
  the defaults of the form are.
\<close>

definition submit_blank :: "form \<Rightarrow> exn + unit gui_args" where
  "submit_blank parser = Inr blank_args"

section \<open>Properties\<close>

subsection \<open>Auxiliary facts about splitting and the input list\<close>

lemma comprehension_map_filter: "[f u. u \<leftarrow> xs, P u] = map f (filter P xs)"
  by (induction xs) auto

lemma append_random_replicate: "append_random k inp = inp @ replicate k RandomCategory"
  by (induction k arbitrary: inp) (auto simp: replicate_append_same)

lemma str_split_not_Nil: "str_split sep s \<noteq> []"
  by (induction s) (auto split: list.splits)

lemma str_join_str_split: "str_join sep (str_split sep s) = s"
proof (induction s)
  case Nil
  show ?case by simp
next
  case (Cons c cs)
  obtain t ts where ts: "str_split sep cs = t # ts"
    using str_split_not_Nil [of sep cs] by (cases "str_split sep cs") auto
  show ?case using Cons ts by (cases ts) auto
qed

lemma str_split_no_sep: "t \<in> set (str_split sep s) \<Longrightarrow> sep \<notin> set t"
  by (induction s arbitrary: t) (auto split: list.splits if_splits)

lemma str_split_only_sep: "set s \<subseteq> {sep} \<Longrightarrow> set (str_split sep s) \<subseteq> {[]}"
  by (induction s) (auto split: list.splits)

lemma str_split_free: "sep \<notin> set s \<Longrightarrow> str_split sep s = [s]"
  by (induction s) auto

lemma tokens_only_sep: "set field \<subseteq> {CHR '',''} \<Longrightarrow> tokens field = []"
proof -
  assume "set field \<subseteq> {CHR '',''}"
  then have "set (str_split CHR '','' field) \<subseteq> {[]}"
    by (rule str_split_only_sep)
  then show ?thesis
    unfolding tokens_def by (auto simp: filter_empty_conv)
qed

lemma tokens_not_empty: "t \<in> set (tokens field) \<Longrightarrow> t \<noteq> []"
  by (simp add: tokens_def)

lemma build_input_eq:
  "build_input mapped_input args =
     map mapped_input (tokens (urls args))
     @ map Str (tokens (ids args))
     @ map LinkList (tokens (link_lists args))
     @ map Channel (tokens (channels args))
     @ map Tag (tokens (tags args))
     @ map Search (tokens (searches args))
     @ map Community (tokens (communities args))
     @ map Story (tokens (stories args))
     @ (if hot args then [HotSection] else [])
     @ replicate (case random_count args of None \<Rightarrow> 0 | Some n \<Rightarrow> nat n) RandomCategory"
  unfolding build_input_def Let_def comprehension_map_filter tokens_def append_random_replicate
  by (simp split: option.split)

subsection \<open>The label tables\<close>

text \<open>
  Claim C1. Each of the four tables sends every label of its menu to one code, and the
  table of \<^verbatim>\<open>GuiDefaultOptions\<close> sends that code back to the label. The keys of each table
  of \<^verbatim>\<open>translate_to_cli\<close> are distinct and are the choices of the menu. Every triple of
  the special-format table comes back from its label, and the two quality labels go
  through the codes 0 (first) and -1 (last).
\<close>

theorem label_tables_round_trip:
  "(\<forall>l \<in> set quality_choices.
      \<exists>c. dict_getitem cli_QUALITY_LABEL l = Inr c \<and> list_getitem QUALITY_LABEL c = Inr l)
   \<and> (\<forall>l \<in> set aac_choices.
      \<exists>c. dict_getitem cli_AAC_LABEL l = Inr c \<and> list_getitem AAC_LABEL c = Inr l)
   \<and> (\<forall>l \<in> set recoubs_choices.
      \<exists>c. dict_getitem cli_RECOUB_LABEL l = Inr c \<and> list_getitem RECOUB_LABEL c = Inr l)
   \<and> (\<forall>l \<in> set special_choices.
      \<exists>t. dict_getitem cli_SPECIAL_LABEL l = Inr t \<and> dict_getitem SPECIAL_LABEL t = Inr l)
   \<and> (\<forall>t \<in> set (map fst SPECIAL_LABEL).
      \<exists>l. dict_getitem SPECIAL_LABEL t = Inr l \<and> dict_getitem cli_SPECIAL_LABEL l = Inr t)
   \<and> distinct (map fst cli_QUALITY_LABEL) \<and> set (map fst cli_QUALITY_LABEL) = set quality_choices
   \<and> distinct (map fst cli_AAC_LABEL) \<and> set (map fst cli_AAC_LABEL) = set aac_choices
   \<and> distinct (map fst cli_RECOUB_LABEL) \<and> set (map fst cli_RECOUB_LABEL) = set recoubs_choices
   \<and> distinct (map fst cli_SPECIAL_LABEL) \<and> set (map fst cli_SPECIAL_LABEL) = set special_choices
   \<and> dict_getitem cli_QUALITY_LABEL ''Worst quality'' = Inr 0
   \<and> list_getitem QUALITY_LABEL 0 = Inr ''Worst quality''
   \<and> dict_getitem cli_QUALITY_LABEL ''Best quality'' = Inr (- 1)
   \<and> list_getitem QUALITY_LABEL (- 1) = Inr ''Best quality''"
  by (auto simp add: quality_choices_def aac_choices_def recoubs_choices_def special_choices_def
      dict_getitem_def list_getitem_def cli_QUALITY_LABEL_def cli_AAC_LABEL_def
      cli_RECOUB_LABEL_def cli_SPECIAL_LABEL_def QUALITY_LABEL_def AAC_LABEL_def
      RECOUB_LABEL_def SPECIAL_LABEL_def)

theorem label_tables_round_trip_witness:
  "(\<exists>c. dict_getitem cli_RECOUB_LABEL ''Only Recoubs'' = Inr c
        \<and> list_getitem RECOUB_LABEL c = Inr ''Only Recoubs'')
   \<and> (\<exists>l. dict_getitem SPECIAL_LABEL (False, False, True) = Inr l
        \<and> dict_getitem cli_SPECIAL_LABEL l = Inr (False, False, True))"
proof -
  have h1: "''Only Recoubs'' \<in> set recoubs_choices"
    by (simp add: recoubs_choices_def)
  have h2: "(False, False, True) \<in> set (map fst SPECIAL_LABEL)"
    by (simp add: SPECIAL_LABEL_def)
  from label_tables_round_trip
  have r1: "\<forall>l \<in> set recoubs_choices.
      \<exists>c. dict_getitem cli_RECOUB_LABEL l = Inr c \<and> list_getitem RECOUB_LABEL c = Inr l"
    and r2: "\<forall>t \<in> set (map fst SPECIAL_LABEL).
      \<exists>l. dict_getitem SPECIAL_LABEL t = Inr l \<and> dict_getitem cli_SPECIAL_LABEL l = Inr t"
    by blast+
  from bspec [OF r1 h1] bspec [OF r2 h2] show ?thesis
    by blast
qed

subsection \<open>The free-text fields\<close>

text \<open>
  Claim C2, as the code has it. For every field, what the field adds to the input list
  is its tokens, wrapped and in their order, and the tokens are exactly the pieces of
  the split at the commas that are not the empty string. Nothing is trimmed: the pieces
  joined by commas are the field again and no piece holds a comma. So a field made of
  commas only adds no element, and with every field so the input list is empty; a piece
  of whitespace is not empty and is kept as it is, and a field without a comma that is
  not empty is one token, itself.
\<close>

theorem field_split_keeps_nonempty_tokens:
  "build_input mapped_input args =
     map mapped_input (tokens (urls args))
     @ map Str (tokens (ids args))
     @ map LinkList (tokens (link_lists args))
     @ map Channel (tokens (channels args))
     @ map Tag (tokens (tags args))
     @ map Search (tokens (searches args))
     @ map Community (tokens (communities args))
     @ map Story (tokens (stories args))
     @ (if hot args then [HotSection] else [])
     @ replicate (case random_count args of None \<Rightarrow> 0 | Some n \<Rightarrow> nat n) RandomCategory
   \<and> tokens field = filter (\<lambda>t. t \<noteq> []) (str_split CHR '','' field)
   \<and> str_join CHR '','' (str_split CHR '','' field) = field
   \<and> (\<forall>t \<in> set (str_split CHR '','' field). CHR '','' \<notin> set t)
   \<and> (set field \<subseteq> {CHR '',''} \<longrightarrow> tokens field = [])
   \<and> (field \<noteq> [] \<and> CHR '','' \<notin> set field \<longrightarrow> tokens field = [field])
   \<and> (set (urls args) \<subseteq> {CHR '',''} \<and> set (ids args) \<subseteq> {CHR '',''}
        \<and> set (link_lists args) \<subseteq> {CHR '',''} \<and> set (channels args) \<subseteq> {CHR '',''}
        \<and> set (tags args) \<subseteq> {CHR '',''} \<and> set (searches args) \<subseteq> {CHR '',''}
        \<and> set (communities args) \<subseteq> {CHR '',''} \<and> set (stories args) \<subseteq> {CHR '',''}
        \<and> \<not> hot args \<and> random_count args = None
        \<longrightarrow> build_input mapped_input args = [])"
proof (intro conjI impI ballI)
  show "build_input mapped_input args =
     map mapped_input (tokens (urls args))
     @ map Str (tokens (ids args))
     @ map LinkList (tokens (link_lists args))
     @ map Channel (tokens (channels args))
     @ map Tag (tokens (tags args))
     @ map Search (tokens (searches args))
     @ map Community (tokens (communities args))
     @ map Story (tokens (stories args))
     @ (if hot args then [HotSection] else [])
     @ replicate (case random_count args of None \<Rightarrow> 0 | Some n \<Rightarrow> nat n) RandomCategory"
    by (rule build_input_eq)
next
  show "tokens field = filter (\<lambda>t. t \<noteq> []) (str_split CHR '','' field)"
    by (rule tokens_def)
next
  show "str_join CHR '','' (str_split CHR '','' field) = field"
    by (rule str_join_str_split)
next
  fix t assume "t \<in> set (str_split CHR '','' field)"
  then show "CHR '','' \<notin> set t" by (rule str_split_no_sep)
next
  assume "set field \<subseteq> {CHR '',''}"
  then show "tokens field = []" by (rule tokens_only_sep)
next
  assume "field \<noteq> [] \<and> CHR '','' \<notin> set field"
  then show "tokens field = [field]"
    by (simp add: tokens_def str_split_free)
next
  assume h: "set (urls args) \<subseteq> {CHR '',''} \<and> set (ids args) \<subseteq> {CHR '',''}
        \<and> set (link_lists args) \<subseteq> {CHR '',''} \<and> set (channels args) \<subseteq> {CHR '',''}
        \<and> set (tags args) \<subseteq> {CHR '',''} \<and> set (searches args) \<subseteq> {CHR '',''}
        \<and> set (communities args) \<subseteq> {CHR '',''} \<and> set (stories args) \<subseteq> {CHR '',''}
        \<and> \<not> hot args \<and> random_count args = None"
  then show "build_input mapped_input args = []"
    by (simp add: build_input_eq tokens_only_sep)
qed

theorem field_split_keeps_nonempty_tokens_witness:
  "tokens '',,,'' = []
   \<and> tokens ''  '' = [''  '']
   \<and> build_input Channel (blank_args\<lparr>tags := '',,'', ids := '',''\<rparr>) = []
   \<and> build_input Channel (blank_args\<lparr>tags := '' a,, ,b ''\<rparr>)
       = [Tag '' a'', Tag '' '', Tag ''b '']"
proof -
  have h1: "set '',,,'' \<subseteq> {CHR '',''}" by simp
  have h2: "''  '' \<noteq> [] \<and> CHR '','' \<notin> set ''  ''" by simp
  let ?a = "blank_args\<lparr>tags := '',,'', ids := '',''\<rparr>"
  let ?b = "blank_args\<lparr>tags := '' a,, ,b ''\<rparr>"
  have h3: "set (urls ?a) \<subseteq> {CHR '',''} \<and> set (ids ?a) \<subseteq> {CHR '',''}
        \<and> set (link_lists ?a) \<subseteq> {CHR '',''} \<and> set (channels ?a) \<subseteq> {CHR '',''}
        \<and> set (tags ?a) \<subseteq> {CHR '',''} \<and> set (searches ?a) \<subseteq> {CHR '',''}
        \<and> set (communities ?a) \<subseteq> {CHR '',''} \<and> set (stories ?a) \<subseteq> {CHR '',''}
        \<and> \<not> hot ?a \<and> random_count ?a = None"
    by (simp add: blank_args_def)
  have tk: "tokens (urls ?b) = []" "tokens (ids ?b) = []" "tokens (link_lists ?b) = []"
    "tokens (channels ?b) = []" "tokens (tags ?b) = ['' a'', '' '', ''b '']"
    "tokens (searches ?b) = []" "tokens (communities ?b) = []" "tokens (stories ?b) = []"
    "hot ?b = False" "random_count ?b = None"
    by (simp_all add: blank_args_def tokens_def)
  from field_split_keeps_nonempty_tokens [of Channel ?a "'',,,''"] h1
  have c1: "tokens '',,,'' = []"
    by blast
  from field_split_keeps_nonempty_tokens [of Channel ?a "''  ''"] h2
  have c2: "tokens ''  '' = [''  '']"
    by blast
  from field_split_keeps_nonempty_tokens [of Channel ?a "[]"] h3
  have c3: "build_input Channel ?a = []"
    by blast
  from field_split_keeps_nonempty_tokens [of Channel ?b "[]"]
  have c4: "build_input Channel ?b = [Tag '' a'', Tag '' '', Tag ''b '']"
    unfolding tk by simp
  from c1 c2 c3 c4 show ?thesis by blast
qed

text \<open>
  The claim as the spec words it fails: the field \<^verbatim>\<open>", ,"\<close> holds separators and
  whitespace only and yet gives one element, the tag of a single space.
\<close>

theorem whitespace_field_counterexample:
  "build_input Channel (blank_args\<lparr>tags := '', ,''\<rparr>) = [Tag '' '']"
  by (simp add: build_input_def blank_args_def)


text \<open>
  Claim C3, as the code has it. The elements of the input list are exactly: the results
  of the URL mapping on the tokens of the URL field; the tokens of the identifier field as
  plain strings, not wrapped at all; the tokens of the other six fields, each wrapped in
  the class of its field; the hot section and the random category. No token is empty, so
  every element that does not come from the URL mapping carries a string that is not
  empty, or is one of the two elements without a string.
\<close>

theorem input_elements_by_field:
  "set (build_input mapped_input args) =
     mapped_input ` set (tokens (urls args))
     \<union> Str ` set (tokens (ids args))
     \<union> LinkList ` set (tokens (link_lists args))
     \<union> Channel ` set (tokens (channels args))
     \<union> Tag ` set (tokens (tags args))
     \<union> Search ` set (tokens (searches args))
     \<union> Community ` set (tokens (communities args))
     \<union> Story ` set (tokens (stories args))
     \<union> (if hot args then {HotSection} else {})
     \<union> (case random_count args of
          None \<Rightarrow> {}
        | Some n \<Rightarrow> if 0 < n then {RandomCategory} else {})
   \<and> (\<forall>field. \<forall>t \<in> set (tokens field). t \<noteq> [] \<and> CHR '','' \<notin> set t)
   \<and> (\<forall>x \<in> set (build_input mapped_input args) - mapped_input ` set (tokens (urls args)).
        payload x \<noteq> Some [])
   \<and> (\<forall>t \<in> set (tokens (ids args)). \<not> is_typed (Str t))"
proof (intro conjI allI ballI)
  show "set (build_input mapped_input args) =
     mapped_input ` set (tokens (urls args))
     \<union> Str ` set (tokens (ids args))
     \<union> LinkList ` set (tokens (link_lists args))
     \<union> Channel ` set (tokens (channels args))
     \<union> Tag ` set (tokens (tags args))
     \<union> Search ` set (tokens (searches args))
     \<union> Community ` set (tokens (communities args))
     \<union> Story ` set (tokens (stories args))
     \<union> (if hot args then {HotSection} else {})
     \<union> (case random_count args of
          None \<Rightarrow> {}
        | Some n \<Rightarrow> if 0 < n then {RandomCategory} else {})"
    unfolding build_input_eq by (auto split: option.splits)
next
  fix field t assume t: "t \<in> set (tokens field)"
  then show "t \<noteq> []" by (rule tokens_not_empty)
next
  fix field t assume "t \<in> set (tokens field)"
  then have "t \<in> set (str_split CHR '','' field)" by (simp add: tokens_def)
  then show "CHR '','' \<notin> set t" by (rule str_split_no_sep)
next
  fix x
  assume "x \<in> set (build_input mapped_input args) - mapped_input ` set (tokens (urls args))"
  then show "payload x \<noteq> Some []"
    unfolding build_input_eq by (auto split: if_splits dest: tokens_not_empty)
next
  fix t show "\<not> is_typed (Str t)" by simp
qed

theorem input_elements_by_field_witness:
  "set (build_input Channel (blank_args\<lparr>ids := ''2ab3c,xyz'', tags := ''cat''\<rparr>))
     = {Str ''2ab3c'', Str ''xyz'', Tag ''cat''}
   \<and> payload (Tag ''cat'') \<noteq> Some []
   \<and> \<not> is_typed (Str ''xyz'')"
proof -
  let ?a = "blank_args\<lparr>ids := ''2ab3c,xyz'', tags := ''cat''\<rparr>"
  have tk: "tokens (ids ?a) = [''2ab3c'', ''xyz'']" "tokens (tags ?a) = [''cat'']"
    "tokens (urls ?a) = []" "tokens (link_lists ?a) = []" "tokens (channels ?a) = []"
    "tokens (searches ?a) = []" "tokens (communities ?a) = []" "tokens (stories ?a) = []"
    "hot ?a = False" "random_count ?a = None"
    by (simp_all add: blank_args_def tokens_def)
  note th = input_elements_by_field [of Channel ?a]
  from th have s: "set (build_input Channel ?a) = {Str ''2ab3c'', Str ''xyz'', Tag ''cat''}"
    unfolding tk by auto
  have m: "Tag ''cat'' \<in> set (build_input Channel ?a) - Channel ` set (tokens (urls ?a))"
    unfolding s tk by simp
  from th have "\<forall>x \<in> set (build_input Channel ?a) - Channel ` set (tokens (urls ?a)).
        payload x \<noteq> Some []" by blast
  from bspec [OF this m] have p: "payload (Tag ''cat'') \<noteq> Some []" .
  have i: "''xyz'' \<in> set (tokens (ids ?a))" unfolding tk by simp
  from th have "\<forall>t \<in> set (tokens (ids ?a)). \<not> is_typed (Str t)" by blast
  from bspec [OF this i] have "\<not> is_typed (Str ''xyz'')" .
  with s p show ?thesis by blast
qed

text \<open>
  The claim as the spec words it fails: a token of the identifier field enters the input
  list as a plain string, not as a descriptor of an identifier class.
\<close>

theorem bare_identifier_counterexample:
  "build_input Channel (blank_args\<lparr>ids := ''2ab3c''\<rparr>) = [Str ''2ab3c'']
   \<and> \<not> is_typed (Str ''2ab3c'')"
  by (simp add: build_input_def blank_args_def)

text \<open>
  Claim C4. The input list is the URL elements, then the identifiers, the link lists, the
  channels, the tags, the searches, the communities and the stories, each field's
  elements in the order of its tokens; then one hot section if the flag is set; then as
  many random categories as the count says, none when the count is unset or zero.
\<close>

theorem input_order_by_field_precedence:
  "build_input mapped_input args =
     map mapped_input (tokens (urls args))
     @ map Str (tokens (ids args))
     @ map LinkList (tokens (link_lists args))
     @ map Channel (tokens (channels args))
     @ map Tag (tokens (tags args))
     @ map Search (tokens (searches args))
     @ map Community (tokens (communities args))
     @ map Story (tokens (stories args))
     @ (if hot args then [HotSection] else [])
     @ replicate (case random_count args of None \<Rightarrow> 0 | Some n \<Rightarrow> nat n) RandomCategory
   \<and> tokens field = filter (\<lambda>t. t \<noteq> []) (str_split CHR '','' field)
   \<and> str_join CHR '','' (str_split CHR '','' field) = field"
  by (simp add: build_input_eq tokens_def str_join_str_split)

theorem input_order_by_field_precedence_witness:
  "build_input Channel
     (blank_args\<lparr>stories := ''s1'', tags := ''t1,,t2'', ids := ''i1'', urls := ''u1'',
        channels := ''c1'', link_lists := ''l1'', communities := ''m1'', searches := ''q1'',
        hot := True, random_count := Some 2\<rparr>)
   = [Channel ''u1'', Str ''i1'', LinkList ''l1'', Channel ''c1'', Tag ''t1'', Tag ''t2'',
      Search ''q1'', Community ''m1'', Story ''s1'', HotSection, RandomCategory,
      RandomCategory]"
proof -
  let ?a = "blank_args\<lparr>stories := ''s1'', tags := ''t1,,t2'', ids := ''i1'', urls := ''u1'',
        channels := ''c1'', link_lists := ''l1'', communities := ''m1'', searches := ''q1'',
        hot := True, random_count := Some 2\<rparr>"
  have tk: "tokens (ids ?a) = [''i1'']" "tokens (tags ?a) = [''t1'', ''t2'']"
    "tokens (urls ?a) = [''u1'']" "tokens (link_lists ?a) = [''l1'']"
    "tokens (channels ?a) = [''c1'']" "tokens (searches ?a) = [''q1'']"
    "tokens (communities ?a) = [''m1'']" "tokens (stories ?a) = [''s1'']"
    "hot ?a = True" "random_count ?a = Some 2"
    by (simp_all add: blank_args_def tokens_def)
  from input_order_by_field_precedence [of Channel ?a "[]"] show ?thesis
    unfolding tk by (simp add: numeral_2_eq_2)
qed


subsection \<open>The archive\<close>

lemma concat_file_lines: "concat (file_lines t) = t"
  by (induction t) (auto split: list.splits)

lemma file_lines_shape:
  "l \<in> set (file_lines t) \<Longrightarrow> l \<noteq> [] \<and> CHR 0x0A \<notin> set (butlast l)"
proof (induction t arbitrary: l)
  case Nil
  then show ?case by simp
next
  case (Cons c cs)
  show ?case
  proof (cases "c = CHR 0x0A")
    case True
    with Cons show ?thesis by auto
  next
    case False
    show ?thesis
    proof (cases "file_lines cs")
      case Nil
      with False Cons.prems show ?thesis by simp
    next
      case (Cons l0 ls)
      have l0: "l0 \<noteq> [] \<and> CHR 0x0A \<notin> set (butlast l0)"
        using Cons.IH [of l0] Cons by simp
      from Cons False Cons.prems have "l = c # l0 \<or> l \<in> set ls" by simp
      then show ?thesis
      proof
        assume "l = c # l0"
        with l0 False show ?thesis by simp
      next
        assume "l \<in> set ls"
        with Cons Cons.IH [of l] show ?thesis by simp
      qed
    qed
  qed
qed

lemma last_dropWhile: "dropWhile P xs \<noteq> [] \<Longrightarrow> last (dropWhile P xs) = last xs"
  by (induction xs) (auto split: if_splits)

lemma strip_decomposition:
  "\<exists>a b. s = a @ strip s @ b \<and> (\<forall>c \<in> set a \<union> set b. isspace c)"
proof -
  let ?ys = "dropWhile isspace s"
  let ?a = "takeWhile isspace s"
  let ?b = "rev (takeWhile isspace (rev ?ys))"
  have "rev (takeWhile isspace (rev ?ys) @ dropWhile isspace (rev ?ys)) = ?ys"
    by (simp only: takeWhile_dropWhile_id rev_rev_ident)
  then have "rev (dropWhile isspace (rev ?ys)) @ ?b = ?ys"
    by (simp only: rev_append)
  then have ys: "?ys = strip s @ ?b"
    unfolding strip_def by (rule sym)
  have "s = ?a @ ?ys" by simp
  with ys have "s = ?a @ strip s @ ?b" by simp
  moreover have "\<forall>c \<in> set ?a \<union> set ?b. isspace c"
    by (auto dest: set_takeWhileD)
  ultimately show ?thesis by blast
qed

lemma strip_ends: "strip s \<noteq> [] \<Longrightarrow> \<not> isspace (hd (strip s)) \<and> \<not> isspace (last (strip s))"
proof -
  let ?ys = "dropWhile isspace s"
  let ?zs = "dropWhile isspace (rev ?ys)"
  assume ne: "strip s \<noteq> []"
  then have zs: "?zs \<noteq> []" by (simp add: strip_def)
  have ys: "?ys \<noteq> []"
  proof
    assume e: "?ys = []"
    have "?zs = []" unfolding e by simp
    with zs show False by simp
  qed
  have "last (strip s) = hd ?zs"
    using zs by (simp add: strip_def last_rev)
  moreover have "\<not> isspace (hd ?zs)"
    using zs by (rule hd_dropWhile)
  moreover have "hd (strip s) = last ?zs"
    using zs by (simp add: strip_def hd_rev)
  moreover have "last ?zs = last (rev ?ys)"
    using zs by (rule last_dropWhile)
  moreover have "last (rev ?ys) = hd ?ys"
    using ys by (simp add: last_rev)
  moreover have "\<not> isspace (hd ?ys)"
    using ys by (rule hd_dropWhile)
  ultimately show ?thesis by simp
qed

text \<open>
  Claim C5. With a path that is set and names a file, the archive content is the set of
  the lines of the file, each stripped of the whitespace around it: the lines are the
  text cut after every newline, and a stripped line is the line without a whitespace
  prefix and a whitespace suffix. With no path, an empty path or a path that names
  nothing the content is the empty set and nothing is raised. The file system is never
  changed.
\<close>

theorem archive_loading:
  "(p \<noteq> [] \<and> fs p = Some (RegularFile text)
      \<longrightarrow> read_archive fs (Some p)
          = (Inr (strip ` set (file_lines (universal_newlines text))), fs))
   \<and> (fs p = None \<longrightarrow> read_archive fs (Some p) = (Inr {}, fs))
   \<and> read_archive fs None = (Inr {}, fs)
   \<and> read_archive fs (Some []) = (Inr {}, fs)
   \<and> snd (read_archive fs path) = fs
   \<and> concat (file_lines t) = t
   \<and> (\<forall>l \<in> set (file_lines t). l \<noteq> [] \<and> CHR 0x0A \<notin> set (butlast l))
   \<and> (\<exists>a b. s = a @ strip s @ b \<and> (\<forall>c \<in> set a \<union> set b. isspace c))
   \<and> (strip s \<noteq> [] \<longrightarrow> \<not> isspace (hd (strip s)) \<and> \<not> isspace (last (strip s)))"
proof (intro conjI impI)
  assume "p \<noteq> [] \<and> fs p = Some (RegularFile text)"
  then show "read_archive fs (Some p)
          = (Inr (strip ` set (file_lines (universal_newlines text))), fs)"
    by (simp add: read_archive_def os_path_exists_def)
next
  assume "fs p = None"
  then show "read_archive fs (Some p) = (Inr {}, fs)"
    by (simp add: read_archive_def os_path_exists_def)
next
  show "read_archive fs None = (Inr {}, fs)"
    by (simp add: read_archive_def)
next
  show "read_archive fs (Some []) = (Inr {}, fs)"
    by (simp add: read_archive_def)
next
  show "snd (read_archive fs path) = fs"
    by (simp add: read_archive_def split: option.splits fs_node.splits)
next
  show "concat (file_lines t) = t"
    by (rule concat_file_lines)
next
  show "\<forall>l \<in> set (file_lines t). l \<noteq> [] \<and> CHR 0x0A \<notin> set (butlast l)"
    using file_lines_shape by blast
next
  show "\<exists>a b. s = a @ strip s @ b \<and> (\<forall>c \<in> set a \<union> set b. isspace c)"
    by (rule strip_decomposition)
next
  assume "strip s \<noteq> []"
  then show "\<not> isspace (hd (strip s))" by (simp add: strip_ends)
next
  assume "strip s \<noteq> []"
  then show "\<not> isspace (last (strip s))" by (simp add: strip_ends)
qed

theorem archive_loading_witness:
  "read_archive [''/home/u/archive.txt'' \<mapsto> RegularFile
       (''id1'' @ [CHR 0x0A] @ ''id2'' @ [CHR 0x0A] @ ''id1'' @ [CHR 0x0A])]
     (Some ''/home/u/archive.txt'')
   = (Inr {''id1'', ''id2''}, [''/home/u/archive.txt'' \<mapsto> RegularFile
       (''id1'' @ [CHR 0x0A] @ ''id2'' @ [CHR 0x0A] @ ''id1'' @ [CHR 0x0A])])
   \<and> card {''id1'', ''id2''} = 2
   \<and> read_archive [''/home/u/archive.txt'' \<mapsto> RegularFile
       (''id1'' @ [CHR 0x0A] @ ''id2'' @ [CHR 0x0A] @ ''id1'' @ [CHR 0x0A])]
     (Some ''/home/u/other.txt'')
   = (Inr {}, [''/home/u/archive.txt'' \<mapsto> RegularFile
       (''id1'' @ [CHR 0x0A] @ ''id2'' @ [CHR 0x0A] @ ''id1'' @ [CHR 0x0A])])"
proof -
  let ?text = "''id1'' @ [CHR 0x0A] @ ''id2'' @ [CHR 0x0A] @ ''id1'' @ [CHR 0x0A]"
  let ?fs = "[''/home/u/archive.txt'' \<mapsto> RegularFile ?text]"
  have h1: "''/home/u/archive.txt'' \<noteq> [] \<and> ?fs ''/home/u/archive.txt'' = Some (RegularFile ?text)"
    by simp
  have h2: "?fs ''/home/u/other.txt'' = None"
    by simp
  have ev: "strip ` set (file_lines (universal_newlines ?text)) = {''id1'', ''id2''}"
    by (auto simp add: strip_def isspace_def)
  have c: "card {''id1'', ''id2''} = 2"
    by simp
  note th1 = archive_loading [of "''/home/u/archive.txt''" ?fs ?text None "[]" "[]"]
  note th2 = archive_loading [of "''/home/u/other.txt''" ?fs ?text None "[]" "[]"]
  from th1 h1 have r1: "read_archive ?fs (Some ''/home/u/archive.txt'')
      = (Inr (strip ` set (file_lines (universal_newlines ?text))), ?fs)"
    by blast
  from th2 h2 have r2: "read_archive ?fs (Some ''/home/u/other.txt'') = (Inr {}, ?fs)"
    by blast
  from r1 r2 c show ?thesis
    unfolding ev by blast
qed


subsection \<open>Normalising the options\<close>

lemma normalize_fields:
  "name_template (normalize args)
     = (if name_template args = Some ''%id%'' then None else name_template args)"
  "tag_sep (normalize args)
     = (if tag_sep args = Some ''space'' then Some '' '' else tag_sep args)"
  "fallback_char (normalize args)
     = (if fallback_char args = None then Some []
        else if fallback_char args = Some ''space'' then Some '' ''
        else fallback_char args)"
  by (simp_all add: normalize_def normalize_name_template_def normalize_tag_sep_def
      normalize_fallback_char_def)

text \<open>
  Claim C6. The name template is rewritten exactly when it is the default token
  \<^verbatim>\<open>%id%\<close>, and then to \<^verbatim>\<open>None\<close>; any other value stays as it is.
\<close>

theorem name_template_normalization:
  "(name_template args = Some ''%id%'' \<longrightarrow> name_template (normalize args) = None)
   \<and> (name_template args \<noteq> Some ''%id%''
        \<longrightarrow> name_template (normalize args) = name_template args)
   \<and> (name_template (normalize args) \<noteq> name_template args
        \<longleftrightarrow> name_template args = Some ''%id%'')
   \<and> name_template (normalize_name_template args) = name_template (normalize args)"
  by (simp add: normalize_def normalize_name_template_def normalize_tag_sep_def
      normalize_fallback_char_def)

theorem name_template_normalization_witness:
  "name_template (normalize blank_args) = None
   \<and> name_template (normalize (blank_args\<lparr>name_template := Some ''%title%''\<rparr>))
       = Some ''%title%''"
proof -
  let ?b = "blank_args\<lparr>name_template := Some ''%title%''\<rparr>"
  have h1: "name_template blank_args = Some ''%id%''"
    by (simp add: blank_args_def)
  have h2: "name_template ?b \<noteq> Some ''%id%''"
    by simp
  from name_template_normalization [of blank_args] h1
  have r1: "name_template (normalize blank_args) = None"
    by blast
  from name_template_normalization [of ?b] h2
  have "name_template (normalize ?b) = name_template ?b"
    by blast
  with r1 show ?thesis by simp
qed

text \<open>
  Claim C7. The tag separator \<^verbatim>\<open>space\<close> becomes a single space; the fallback character
  \<^verbatim>\<open>None\<close> becomes the empty string and \<^verbatim>\<open>space\<close> a single space; every other value
  of the two options stays as it is.
\<close>

theorem blank_keyword_normalization:
  "(tag_sep args = Some ''space'' \<longrightarrow> tag_sep (normalize args) = Some '' '')
   \<and> (tag_sep args \<noteq> Some ''space'' \<longrightarrow> tag_sep (normalize args) = tag_sep args)
   \<and> (fallback_char args = None \<longrightarrow> fallback_char (normalize args) = Some [])
   \<and> (fallback_char args = Some ''space'' \<longrightarrow> fallback_char (normalize args) = Some '' '')
   \<and> (fallback_char args \<noteq> None \<and> fallback_char args \<noteq> Some ''space''
        \<longrightarrow> fallback_char (normalize args) = fallback_char args)
   \<and> tag_sep (normalize_tag_sep args) = tag_sep (normalize args)
   \<and> fallback_char (normalize_fallback_char args) = fallback_char (normalize args)"
  by (simp add: normalize_def normalize_name_template_def normalize_tag_sep_def
      normalize_fallback_char_def)

theorem blank_keyword_normalization_witness:
  "tag_sep (normalize (blank_args\<lparr>tag_sep := Some ''space''\<rparr>)) = Some '' ''
   \<and> tag_sep (normalize blank_args) = Some ''_''
   \<and> fallback_char (normalize blank_args) = Some []
   \<and> fallback_char (normalize (blank_args\<lparr>fallback_char := Some ''space''\<rparr>)) = Some '' ''
   \<and> fallback_char (normalize (blank_args\<lparr>fallback_char := Some ''-''\<rparr>)) = Some ''-''"
proof -
  let ?s = "blank_args\<lparr>tag_sep := Some ''space''\<rparr>"
  let ?f = "blank_args\<lparr>fallback_char := Some ''space''\<rparr>"
  let ?g = "blank_args\<lparr>fallback_char := Some ''-''\<rparr>"
  have h1: "tag_sep ?s = Some ''space''" by simp
  have h2: "tag_sep blank_args \<noteq> Some ''space''" by (simp add: blank_args_def)
  have h3: "fallback_char blank_args = None" by (simp add: blank_args_def)
  have h4: "fallback_char ?f = Some ''space''" by simp
  have h5: "fallback_char ?g \<noteq> None \<and> fallback_char ?g \<noteq> Some ''space''" by simp
  from blank_keyword_normalization [of ?s] h1
  have r1: "tag_sep (normalize ?s) = Some '' ''" by blast
  from blank_keyword_normalization [of blank_args] h2
  have r2: "tag_sep (normalize blank_args) = tag_sep blank_args" by blast
  from blank_keyword_normalization [of blank_args] h3
  have r3: "fallback_char (normalize blank_args) = Some []" by blast
  from blank_keyword_normalization [of ?f] h4
  have r4: "fallback_char (normalize ?f) = Some '' ''" by blast
  from blank_keyword_normalization [of ?g] h5
  have r5: "fallback_char (normalize ?g) = fallback_char ?g" by blast
  have t: "tag_sep blank_args = Some ''_''" by (simp add: blank_args_def)
  from r1 r2 r3 r4 r5 t show ?thesis by simp
qed

lemma name_template_tag_sep_commute:
  "normalize_name_template (normalize_tag_sep args)
     = normalize_tag_sep (normalize_name_template args)"
  by (simp add: normalize_name_template_def normalize_tag_sep_def)

lemma name_template_fallback_char_commute:
  "normalize_name_template (normalize_fallback_char args)
     = normalize_fallback_char (normalize_name_template args)"
  by (simp add: normalize_name_template_def normalize_fallback_char_def)

lemma tag_sep_fallback_char_commute:
  "normalize_tag_sep (normalize_fallback_char args)
     = normalize_fallback_char (normalize_tag_sep args)"
  by (simp add: normalize_tag_sep_def normalize_fallback_char_def)

lemma normalize_name_template_idem:
  "normalize_name_template (normalize_name_template args) = normalize_name_template args"
  by (simp add: normalize_name_template_def)

lemma normalize_tag_sep_idem:
  "normalize_tag_sep (normalize_tag_sep args) = normalize_tag_sep args"
  by (simp add: normalize_tag_sep_def)

lemma normalize_fallback_char_idem:
  "normalize_fallback_char (normalize_fallback_char args) = normalize_fallback_char args"
  by (simp add: normalize_fallback_char_def)

text \<open>
  Claim C8. The three rewrites commute pairwise, so each of the six orders of applying
  them gives the normalisation of the source order; normalising twice is normalising
  once, each rewrite alone is idempotent, and no normalised value is a value that one of
  the rewrites fires on.
\<close>

theorem normalization_rules_independent:
  "normalize_name_template (normalize_tag_sep args)
     = normalize_tag_sep (normalize_name_template args)
   \<and> normalize_name_template (normalize_fallback_char args)
     = normalize_fallback_char (normalize_name_template args)
   \<and> normalize_tag_sep (normalize_fallback_char args)
     = normalize_fallback_char (normalize_tag_sep args)
   \<and> normalize_fallback_char (normalize_name_template (normalize_tag_sep args)) = normalize args
   \<and> normalize_tag_sep (normalize_fallback_char (normalize_name_template args)) = normalize args
   \<and> normalize_tag_sep (normalize_name_template (normalize_fallback_char args)) = normalize args
   \<and> normalize_name_template (normalize_fallback_char (normalize_tag_sep args)) = normalize args
   \<and> normalize_name_template (normalize_tag_sep (normalize_fallback_char args)) = normalize args
   \<and> normalize (normalize args) = normalize args
   \<and> normalize_name_template (normalize_name_template args) = normalize_name_template args
   \<and> normalize_tag_sep (normalize_tag_sep args) = normalize_tag_sep args
   \<and> normalize_fallback_char (normalize_fallback_char args) = normalize_fallback_char args
   \<and> name_template (normalize args) \<noteq> Some ''%id%''
   \<and> tag_sep (normalize args) \<noteq> Some ''space''
   \<and> fallback_char (normalize args) \<noteq> None
   \<and> fallback_char (normalize args) \<noteq> Some ''space''"
proof -
  note comm = name_template_tag_sep_commute name_template_fallback_char_commute
    tag_sep_fallback_char_commute
  note idem = normalize_name_template_idem normalize_tag_sep_idem normalize_fallback_char_idem
  have orders:
    "normalize_fallback_char (normalize_name_template (normalize_tag_sep args)) = normalize args"
    "normalize_tag_sep (normalize_fallback_char (normalize_name_template args)) = normalize args"
    "normalize_tag_sep (normalize_name_template (normalize_fallback_char args)) = normalize args"
    "normalize_name_template (normalize_fallback_char (normalize_tag_sep args)) = normalize args"
    "normalize_name_template (normalize_tag_sep (normalize_fallback_char args)) = normalize args"
    unfolding normalize_def by (simp_all only: comm)
  have twice: "normalize (normalize args) = normalize args"
  proof -
    have "normalize (normalize args)
        = normalize_fallback_char (normalize_fallback_char
            (normalize_tag_sep (normalize_tag_sep
              (normalize_name_template (normalize_name_template args)))))"
      unfolding normalize_def by (simp only: comm)
    then show ?thesis
      unfolding normalize_def by (simp only: idem)
  qed
  have out: "name_template (normalize args) \<noteq> Some ''%id%''"
    "tag_sep (normalize args) \<noteq> Some ''space''"
    "fallback_char (normalize args) \<noteq> None"
    "fallback_char (normalize args) \<noteq> Some ''space''"
    by (simp_all add: normalize_fields)
  from comm idem orders twice out show ?thesis
    by (intro conjI)
qed

theorem normalization_rules_independent_witness:
  "normalize_name_template (normalize_tag_sep (normalize_fallback_char
       (blank_args\<lparr>tag_sep := Some ''space''\<rparr>)))
     = blank_args\<lparr>name_template := None, tag_sep := Some '' '', fallback_char := Some []\<rparr>
   \<and> normalize (normalize (blank_args\<lparr>tag_sep := Some ''space''\<rparr>))
     = blank_args\<lparr>name_template := None, tag_sep := Some '' '', fallback_char := Some []\<rparr>"
proof -
  let ?a = "blank_args\<lparr>tag_sep := Some ''space''\<rparr>"
  have n: "normalize ?a
     = blank_args\<lparr>name_template := None, tag_sep := Some '' '', fallback_char := Some []\<rparr>"
    by (simp add: normalize_def normalize_name_template_def normalize_tag_sep_def
        normalize_fallback_char_def blank_args_def)
  from normalization_rules_independent [of ?a] show ?thesis
    unfolding n by simp
qed


subsection \<open>The correction of the defaults\<close>

lemma os_path_join_isabs: "os_path_isabs a \<Longrightarrow> os_path_isabs (os_path_join a b)"
  by (cases a) (auto simp: os_path_isabs_def os_path_join_def)

text \<open>
  Claim C9. After the defaults are loaded, a prompt answer other than \<^verbatim>\<open>yes\<close> and
  \<^verbatim>\<open>no\<close> becomes \<^verbatim>\<open>no\<close> and one of the two stays; an output path that is not absolute
  becomes the directory \<^verbatim>\<open>coubs\<close> under the home directory, which is absolute when the
  home directory is, and an absolute path stays. Nothing else changes.
\<close>

theorem gui_default_correction:
  "PROMPT (GuiDefaultOptions_init home d)
     = (if PROMPT d = Some ''yes'' \<or> PROMPT d = Some ''no'' then PROMPT d else Some ''no'')
   \<and> PATH (GuiDefaultOptions_init home d)
     = (if os_path_isabs (PATH d) then PATH d else os_path_join home ''coubs'')
   \<and> (home \<noteq> [] \<and> last home \<noteq> CHR ''/'' \<longrightarrow> os_path_join home ''coubs'' = home @ ''/coubs'')
   \<and> (os_path_isabs home \<longrightarrow> os_path_isabs (PATH (GuiDefaultOptions_init home d)))
   \<and> GuiDefaultOptions_init home d
     = d\<lparr>PROMPT := PROMPT (GuiDefaultOptions_init home d),
         PATH := PATH (GuiDefaultOptions_init home d)\<rparr>"
proof (intro conjI impI)
  show "PROMPT (GuiDefaultOptions_init home d)
     = (if PROMPT d = Some ''yes'' \<or> PROMPT d = Some ''no'' then PROMPT d else Some ''no'')"
    by (simp add: GuiDefaultOptions_init_def Let_def)
next
  show p: "PATH (GuiDefaultOptions_init home d)
     = (if os_path_isabs (PATH d) then PATH d else os_path_join home ''coubs'')"
    by (simp add: GuiDefaultOptions_init_def Let_def)
  assume "os_path_isabs home"
  then have "os_path_isabs (os_path_join home ''coubs'')"
    by (rule os_path_join_isabs)
  then show "os_path_isabs (PATH (GuiDefaultOptions_init home d))"
    unfolding p by simp
next
  assume "home \<noteq> [] \<and> last home \<noteq> CHR ''/''"
  then show "os_path_join home ''coubs'' = home @ ''/coubs''"
    by (simp add: os_path_join_def os_path_isabs_def)
next
  show "GuiDefaultOptions_init home d
     = d\<lparr>PROMPT := PROMPT (GuiDefaultOptions_init home d),
         PATH := PATH (GuiDefaultOptions_init home d)\<rparr>"
    by (simp add: GuiDefaultOptions_init_def Let_def)
qed

theorem gui_default_correction_witness:
  "GuiDefaultOptions_init ''/home/user'' sample_defaults
     = sample_defaults\<lparr>PROMPT := Some ''no'', PATH := ''/home/user/coubs''\<rparr>
   \<and> os_path_isabs (PATH (GuiDefaultOptions_init ''/home/user'' sample_defaults))
   \<and> GuiDefaultOptions_init ''/home/user''
       (sample_defaults\<lparr>PROMPT := Some ''yes'', PATH := ''/data/coubs''\<rparr>)
     = sample_defaults\<lparr>PROMPT := Some ''yes'', PATH := ''/data/coubs''\<rparr>"
proof -
  let ?h = "''/home/user''"
  let ?d = "sample_defaults\<lparr>PROMPT := Some ''yes'', PATH := ''/data/coubs''\<rparr>"
  have h1: "?h \<noteq> [] \<and> last ?h \<noteq> CHR ''/''" by simp
  have h2: "os_path_isabs ?h" by (simp add: os_path_isabs_def)
  have s1: "PROMPT sample_defaults = None" "PATH sample_defaults = ''./out''"
    by (simp_all add: sample_defaults_def)
  have s2: "\<not> os_path_isabs ''./out''" "os_path_isabs ''/data/coubs''"
    by (simp_all add: os_path_isabs_def)
  note a = gui_default_correction [of ?h sample_defaults]
  note b = gui_default_correction [of ?h ?d]
  from a h1 have j: "os_path_join ?h ''coubs'' = ?h @ ''/coubs''" by blast
  from a have "PROMPT (GuiDefaultOptions_init ?h sample_defaults) = Some ''no''"
    unfolding s1 by simp
  moreover from a have "PATH (GuiDefaultOptions_init ?h sample_defaults) = ''/home/user/coubs''"
    unfolding s1 j using s2 by simp
  moreover from a have "GuiDefaultOptions_init ?h sample_defaults
     = sample_defaults\<lparr>PROMPT := PROMPT (GuiDefaultOptions_init ?h sample_defaults),
         PATH := PATH (GuiDefaultOptions_init ?h sample_defaults)\<rparr>"
    by blast
  ultimately have r1: "GuiDefaultOptions_init ?h sample_defaults
     = sample_defaults\<lparr>PROMPT := Some ''no'', PATH := ''/home/user/coubs''\<rparr>"
    by simp
  from a h2 have r2: "os_path_isabs (PATH (GuiDefaultOptions_init ?h sample_defaults))"
    by blast
  from b have "PROMPT (GuiDefaultOptions_init ?h ?d) = Some ''yes''"
    by simp
  moreover from b have "PATH (GuiDefaultOptions_init ?h ?d) = ''/data/coubs''"
    using s2 by simp
  moreover from b have "GuiDefaultOptions_init ?h ?d
     = ?d\<lparr>PROMPT := PROMPT (GuiDefaultOptions_init ?h ?d),
         PATH := PATH (GuiDefaultOptions_init ?h ?d)\<rparr>"
    by blast
  ultimately have r3: "GuiDefaultOptions_init ?h ?d = ?d"
    by simp
  from r1 r2 r3 show ?thesis by simp
qed

subsection \<open>The deferred option error\<close>

lemma GuiDefaultOptions_init_error: "error (GuiDefaultOptions_init home base) = error base"
  by (simp add: GuiDefaultOptions_init_def Let_def)

lemma parse_cli_flagged:
  "error base \<Longrightarrow>
   parse_cli home base parse_args mapped_input fs
     = (case build_parser (GuiDefaultOptions_init home base) of
          Inl e \<Rightarrow> (Inl e, fs)
        | Inr parser \<Rightarrow>
            (case parse_args parser of
               Inl e \<Rightarrow> (Inl e, fs)
             | Inr args \<Rightarrow> (Inl (SystemExit OPT), fs)))"
  by (simp add: parse_cli_def Let_def GuiDefaultOptions_init_error split: sum.splits)

lemma flagged_exit_after_parsing:
  "error base \<Longrightarrow> build_parser (GuiDefaultOptions_init home base) = Inr parser \<Longrightarrow>
   parse_args parser = Inr args \<Longrightarrow>
   parse_cli home base parse_args mapped_input fs = (Inl (SystemExit OPT), fs)"
  by (simp add: parse_cli_flagged)

lemma build_parser_out_of_range:
  "RECOUBS defs < - 3 \<or> 3 \<le> RECOUBS defs \<Longrightarrow> build_parser defs = Inl IndexError"
  by (auto simp add: build_parser_def list_getitem_def RECOUB_LABEL_def)

text \<open>
  Claim C10. The claim, and with it the comment of the source on the flag check (exit
  only after parsing, not to hinder the creation of the form), says that with the error
  flag set the form is still built and the arguments are still parsed before the process
  exits with the option-error status. The code does so only while the defaults index
  their label tables. A defaults object with the flag set and the recoub policy 3, a
  value outside the table of three labels, makes the lookup of the default label raise
  \<^verbatim>\<open>IndexError\<close> while the parser is built: the arguments are never parsed, the flag is
  never checked and the process does not exit with the option-error status. With the
  same flag and a policy inside the table the exit is the deferred one.
\<close>

theorem malformed_default_raises_before_flag_check:
  "error (GuiDefaultOptions_init ''/home/user'' (sample_defaults\<lparr>RECOUBS := 3, error := True\<rparr>))
   \<and> build_parser (GuiDefaultOptions_init ''/home/user''
        (sample_defaults\<lparr>RECOUBS := 3, error := True\<rparr>)) = Inl IndexError
   \<and> parse_cli ''/home/user'' (sample_defaults\<lparr>RECOUBS := 3, error := True\<rparr>)
        submit_blank Channel Map.empty
     = (Inl IndexError, Map.empty)
   \<and> IndexError \<noteq> SystemExit OPT
   \<and> parse_cli ''/home/user'' (sample_defaults\<lparr>error := True\<rparr>)
        submit_blank Channel Map.empty
     = (Inl (SystemExit OPT), Map.empty)"
proof -
  let ?bad = "sample_defaults\<lparr>RECOUBS := 3, error := True\<rparr>"
  let ?good = "sample_defaults\<lparr>error := True\<rparr>"
  have flag: "error (GuiDefaultOptions_init ''/home/user'' ?bad)"
    by (simp add: GuiDefaultOptions_init_error)
  have "RECOUBS (GuiDefaultOptions_init ''/home/user'' ?bad) = 3"
    by (simp add: GuiDefaultOptions_init_def Let_def)
  then have bad: "build_parser (GuiDefaultOptions_init ''/home/user'' ?bad) = Inl IndexError"
    by (simp add: build_parser_out_of_range)
  have r1: "parse_cli ''/home/user'' ?bad submit_blank Channel Map.empty
      = (Inl IndexError, Map.empty)"
    by (simp add: parse_cli_def Let_def bad)
  have good: "\<exists>parser. build_parser (GuiDefaultOptions_init ''/home/user'' ?good) = Inr parser"
    by (simp add: build_parser_def GuiDefaultOptions_init_def sample_defaults_def Let_def
        list_getitem_def dict_getitem_def RECOUB_LABEL_def QUALITY_LABEL_def AAC_LABEL_def
        SPECIAL_LABEL_def)
  then obtain parser
    where "build_parser (GuiDefaultOptions_init ''/home/user'' ?good) = Inr parser" ..
  moreover have "error ?good" by simp
  moreover have "submit_blank parser = Inr blank_args" by (simp add: submit_blank_def)
  ultimately have r2: "parse_cli ''/home/user'' ?good submit_blank Channel Map.empty
      = (Inl (SystemExit OPT), Map.empty)"
    by (simp add: flagged_exit_after_parsing)
  from flag bad r1 r2 show ?thesis by simp
qed

end
